theory Spec2Isabelle
  imports Main "HOL-Library.Sublist"
begin

section \<open>Python text\<close>

text \<open>
  A Python \<open>str\<close> is a sequence of Unicode code points, so a character is modelled by
  its code point and a text by the list of them: \<open>len\<close> is \<open>length\<close>, the slice
  \<open>s[n:]\<close> is \<open>drop n s\<close> and \<open>s[:n]\<close> is \<open>take n s\<close>.  The literals of the
  source are written \<open>lit ''...''\<close>.
\<close>

type_synonym pychar = nat
type_synonym pystr = "pychar list"

definition lit :: "string \<Rightarrow> pystr" where
  "lit cs = map of_char cs"

text \<open>
  \<open>str.isspace\<close> on one character: the code points that \<open>str.strip()\<close>, called
  without argument, removes.
\<close>

definition isspace :: "pychar \<Rightarrow> bool" where
  "isspace c \<longleftrightarrow>
     (9 \<le> c \<and> c \<le> 13) \<or> (28 \<le> c \<and> c \<le> 32) \<or> c = 133 \<or> c = 160 \<or> c = 5760 \<or>
     (8192 \<le> c \<and> c \<le> 8202) \<or> c = 8232 \<or> c = 8233 \<or> c = 8239 \<or> c = 8287 \<or> c = 12288"

definition lstrip :: "pystr \<Rightarrow> pystr" where
  "lstrip s = dropWhile isspace s"

definition rstrip :: "pystr \<Rightarrow> pystr" where
  "rstrip s = rev (dropWhile isspace (rev s))"

definition strip :: "pystr \<Rightarrow> pystr" where
  "strip s = rstrip (lstrip s)"

definition startswith :: "pystr \<Rightarrow> pystr \<Rightarrow> bool" where
  "startswith s p \<longleftrightarrow> take (length p) s = p"

definition endswith :: "pystr \<Rightarrow> pystr \<Rightarrow> bool" where
  "endswith s p \<longleftrightarrow> length p \<le> length s \<and> drop (length s - length p) s = p"

section \<open>Python values\<close>

text \<open>
  The values \<open>json.loads\<close> can return.  A \<open>dict\<close> keeps its keys in insertion order and
  is an association list; a \<open>float\<close> is represented by the decimal literal it was read
  from (its numeric value is never inspected by the program).
\<close>

datatype pyval =
    PNone
  | PBool bool
  | PInt int
  | PFloat pystr
  | PStr pystr
  | PList "pyval list"
  | PDict "(pystr \<times> pyval) list"

type_synonym pydict = "(pystr \<times> pyval) list"

text \<open>\<open>k in d\<close>, \<open>d[k]\<close> (\<open>None\<close> where Python raises \<open>KeyError\<close>) and \<open>d[k] = v\<close>.\<close>

definition dict_contains :: "pydict \<Rightarrow> pystr \<Rightarrow> bool" where
  "dict_contains d k \<longleftrightarrow> map_of d k \<noteq> None"

definition dict_getitem :: "pydict \<Rightarrow> pystr \<Rightarrow> pyval option" where
  "dict_getitem d k = map_of d k"

fun dict_setitem :: "pydict \<Rightarrow> pystr \<Rightarrow> pyval \<Rightarrow> pydict" where
  "dict_setitem [] k v = [(k, v)]"
| "dict_setitem ((k', v') # d) k v =
     (if k' = k then (k', v) # d else (k', v') # dict_setitem d k v)"

text \<open>
  \<open>isinstance(v, int)\<close> together with the number \<open>v\<close> then stands for in a comparison:
  \<open>bool\<close> is a subclass of \<open>int\<close>, with \<open>True == 1\<close> and \<open>False == 0\<close>.
\<close>

fun int_value :: "pyval \<Rightarrow> int option" where
  "int_value (PInt n) = Some n"
| "int_value (PBool b) = Some (if b then 1 else 0)"
| "int_value _ = None"

text \<open>
  \<open>for q in v\<close>: the elements visited, or \<open>None\<close> where Python raises \<open>TypeError\<close>
  (the value is not iterable).  A \<open>dict\<close> yields its keys, a \<open>str\<close> its characters.
\<close>

fun py_iter :: "pyval \<Rightarrow> pyval list option" where
  "py_iter (PList xs) = Some xs"
| "py_iter (PDict d) = Some (map (\<lambda>(k, v). PStr k) d)"
| "py_iter (PStr s) = Some (map (\<lambda>c. PStr [c]) s)"
| "py_iter _ = None"

section \<open>Cleaning and validating the model's answer\<close>

text \<open>
  Lines 60--69 of \<open>generate_questions_with_gemini\<close>: \<open>response.text.strip()\<close>, the
  three marker tests and the final \<open>strip()\<close>.
\<close>

definition clean_content :: "pystr \<Rightarrow> pystr" where
  "clean_content text =
     (let content = strip text;
          content = (if startswith content (lit ''```json'') then drop 7 content else content);
          content = (if startswith content (lit ''```'') then drop 3 content else content);
          content = (if endswith content (lit ''```'')
                     then take (length content - 3) content else content)
      in strip content)"

text \<open>The condition of lines 77--84 on one element \<open>q\<close> of the decoded value.\<close>

fun valid_question :: "pyval \<Rightarrow> bool" where
  "valid_question (PDict q) =
     (dict_contains q (lit ''question'') \<and>
      dict_contains q (lit ''options'') \<and>
      dict_contains q (lit ''correct_answer'') \<and>
      (case dict_getitem q (lit ''options'') of
         Some (PList options) \<Rightarrow>
           2 \<le> length options \<and>
           (case dict_getitem q (lit ''correct_answer'') of
              Some correct_answer \<Rightarrow>
                (case int_value correct_answer of
                   Some n \<Rightarrow> 0 \<le> n \<and> n < int (length options)
                 | None \<Rightarrow> False)
            | None \<Rightarrow> False)
       | _ \<Rightarrow> False))"
| "valid_question _ = False"

definition placeholder :: pystr where
  "placeholder = lit ''Explanation not provided.''"

text \<open>Lines 87--88, on an element that passed the test (a \<open>dict\<close>).\<close>

fun ensure_explanation :: "pyval \<Rightarrow> pyval" where
  "ensure_explanation (PDict q) =
     (if \<not> dict_contains q (lit ''explanation'')
      then PDict (dict_setitem q (lit ''explanation'') (PStr placeholder))
      else PDict q)"
| "ensure_explanation v = v"

text \<open>The loop of lines 75--90, with \<open>validated_questions\<close> as accumulator.\<close>

fun validate_loop :: "pyval list \<Rightarrow> pyval list \<Rightarrow> pyval list" where
  "validate_loop [] validated_questions = validated_questions"
| "validate_loop (q # questions) validated_questions =
     (if valid_question q
      then validate_loop questions (validated_questions @ [ensure_explanation q])
      else validate_loop questions validated_questions)"

text \<open>
  What \<open>json.loads(content)\<close> does: it returns a value, raises \<open>JSONDecodeError\<close>
  (caught at line 99), or raises something else (caught at line 104, as is the
  \<open>TypeError\<close> of a loop over a value that is not iterable).
\<close>

datatype loads_result = Parsed pyval | JSONDecodeError | OtherException

text \<open>
  What the routine shows to the user besides returning its list: \<open>st.success\<close> with the
  number of questions (line 93), or one of the \<open>st.error\<close> reports of line 96
  (\<open>NoValidQuestions\<close>), lines 100--101 (\<open>MalformedResponse\<close>, with the excerpt
  \<open>content[:500]\<close>), line 105 (\<open>ApiError\<close>) and line 31 (\<open>MissingApiKey\<close>).
\<close>

datatype report =
    Success nat
  | NoValidQuestions
  | MalformedResponse pystr
  | ApiError
  | MissingApiKey

text \<open>
  Lines 60--107 on the text of the response: the routine the specification calls
  \<open>parseAndValidate\<close>.  The decoder \<open>json.loads\<close> is a parameter.
\<close>

definition parseAndValidate ::
  "(pystr \<Rightarrow> loads_result) \<Rightarrow> pystr \<Rightarrow> pyval list \<times> report" where
  "parseAndValidate loads text =
     (let content = clean_content text in
      case loads content of
        JSONDecodeError \<Rightarrow> ([], MalformedResponse (take 500 content))
      | OtherException \<Rightarrow> ([], ApiError)
      | Parsed questions \<Rightarrow>
          (case py_iter questions of
             None \<Rightarrow> ([], ApiError)
           | Some qs \<Rightarrow>
               (let validated_questions = validate_loop qs [] in
                if validated_questions \<noteq> []
                then (validated_questions, Success (length validated_questions))
                else ([], NoValidQuestions))))"

text \<open>
  The call of the hosted model (lines 36--59) is outside the program: its outcome, the
  text of the response or an exception, is an input.
\<close>

datatype api_response = ResponseText pystr | ApiException

text \<open>\<open>GOOGLE_API_KEY\<close> is \<open>None\<close> or a text; it is false when \<open>None\<close> or empty.\<close>

definition key_present :: "pystr option \<Rightarrow> bool" where
  "key_present key \<longleftrightarrow> (case key of None \<Rightarrow> False | Some k \<Rightarrow> k \<noteq> [])"

definition generate_questions_with_gemini ::
  "(pystr \<Rightarrow> loads_result) \<Rightarrow> pystr option \<Rightarrow> api_response \<Rightarrow> pyval list \<times> report" where
  "generate_questions_with_gemini loads GOOGLE_API_KEY response =
     (if \<not> key_present GOOGLE_API_KEY then ([], MissingApiKey)
      else case response of
             ApiException \<Rightarrow> ([], ApiError)
           | ResponseText text \<Rightarrow> parseAndValidate loads text)"

section \<open>The JSON decoder\<close>

text \<open>
  \<open>json.loads\<close> belongs to Python's standard library.  The properties of the routine
  are proved for every decoder \<open>loads\<close>; \<open>json_loads\<close> below follows the library's
  decoder (the grammar of RFC 8259, with Python's \<open>NaN\<close>, \<open>Infinity\<close> and
  \<open>-Infinity\<close>, in strict mode) and serves to run the routine on concrete texts.  The
  interpreter's limits (recursion depth, digits of an integer) are not part of it.

  The decoder reads the text in two passes.  The first cuts it into tokens, as
  \<open>scan_once\<close> recognises them; a scanner returns what it read and the number of
  characters it consumed.  Code points are written as numbers: 34 is the double quote,
  92 the backslash, 117 the letter u, 48 to 57 the digits.
\<close>

definition isdigit :: "pychar \<Rightarrow> bool" where
  "isdigit c \<longleftrightarrow> 48 \<le> c \<and> c \<le> 57"

text \<open>The four hexadecimal digits of an escape \<open>\uXXXX\<close>, as a number.\<close>

fun hexval :: "pychar \<Rightarrow> nat option" where
  "hexval c =
     (if 48 \<le> c \<and> c \<le> 57 then Some (c - 48)
      else if 97 \<le> c \<and> c \<le> 102 then Some (c - 87)
      else if 65 \<le> c \<and> c \<le> 70 then Some (c - 55)
      else None)"

fun hex4 :: "pystr \<Rightarrow> nat option" where
  "hex4 (a # b # c # d # rest) =
     (case (hexval a, hexval b, hexval c, hexval d) of
        (Some x, Some y, Some z, Some w) \<Rightarrow> Some (((x * 16 + y) * 16 + z) * 16 + w)
      | _ \<Rightarrow> None)"
| "hex4 _ = None"

text \<open>The one-letter escapes: the table \<open>BACKSLASH\<close> of the decoder.\<close>

fun unescape :: "pychar \<Rightarrow> pychar option" where
  "unescape e =
     (if e = 34 then Some 34
      else if e = 92 then Some 92
      else if e = 47 then Some 47
      else if e = 98 then Some 8
      else if e = 102 then Some 12
      else if e = 110 then Some 10
      else if e = 114 then Some 13
      else if e = 116 then Some 9
      else None)"

text \<open>
  What follows a backslash inside a string: the character it denotes and the number of
  characters read for it.  A high surrogate followed by the escape of a low surrogate
  is joined with it into one code point.
\<close>

definition advance :: "nat \<Rightarrow> ('a \<times> nat) option \<Rightarrow> ('a \<times> nat) option" where
  "advance n r = map_option (\<lambda>(x, k). (x, k + n)) r"

definition scan_escape :: "pystr \<Rightarrow> (pychar \<times> nat) option" where
  "scan_escape cs =
     (case cs of
        [] \<Rightarrow> None
      | e # cs' \<Rightarrow>
          if e = 117 then
            (case hex4 cs' of
               None \<Rightarrow> None
             | Some uni \<Rightarrow>
                 if 55296 \<le> uni \<and> uni \<le> 56319 \<and> startswith (drop 4 cs') [92, 117] then
                   (case hex4 (drop 6 cs') of
                      None \<Rightarrow> None
                    | Some uni2 \<Rightarrow>
                        if 56320 \<le> uni2 \<and> uni2 \<le> 57343
                        then Some (65536 + ((uni - 55296) * 1024 + (uni2 - 56320)), 11)
                        else Some (uni, 5))
                 else Some (uni, 5))
          else map_option (\<lambda>ch. (ch, 1)) (unescape e))"

text \<open>
  \<open>scanstring\<close>, from the character after the opening quote: the string read so far is
  \<open>acc\<close>; control characters are refused, and a text that ends before the closing
  quote is an error.
\<close>

fun scanstring :: "pystr \<Rightarrow> pystr \<Rightarrow> (pystr \<times> nat) option" where
  "scanstring acc [] = None"
| "scanstring acc (c # cs) =
     (if c = 34 then Some (acc, 1)
      else if c = 92 then
        (case scan_escape cs of
           None \<Rightarrow> None
         | Some (ch, n) \<Rightarrow> advance (Suc n) (scanstring (acc @ [ch]) (drop n cs)))
      else if c < 32 then None
      else advance 1 (scanstring (acc @ [c]) cs))"

text \<open>
  A number, as the pattern \<open>NUMBER_RE\<close> matches it: an optional minus sign, an integer
  part without leading zeros, an optional fraction and an optional exponent.  Without
  fraction and exponent it is an \<open>int\<close>, otherwise a \<open>float\<close>.
\<close>

definition digits_value :: "pystr \<Rightarrow> nat" where
  "digits_value ds = foldl (\<lambda>a c. 10 * a + (c - 48)) 0 ds"

definition match_number :: "pystr \<Rightarrow> (pyval \<times> nat) option" where
  "match_number s =
     (let sign = (case s of c # _ \<Rightarrow> if c = 45 then [c] else [] | [] \<Rightarrow> []);
          s1 = drop (length sign) s;
          integer = (case s1 of
                       [] \<Rightarrow> []
                     | d # _ \<Rightarrow> if d = 48 then [d]
                                else if isdigit d then takeWhile isdigit s1 else []);
          s2 = drop (length integer) s1;
          frac = (case s2 of
                    p # d # _ \<Rightarrow> if p = 46 \<and> isdigit d
                                  then p # takeWhile isdigit (tl s2) else []
                  | _ \<Rightarrow> []);
          s3 = drop (length frac) s2;
          exp = (case s3 of
                   [] \<Rightarrow> []
                 | e # r \<Rightarrow>
                     if e = 101 \<or> e = 69 then
                       (let sg = (case r of x # _ \<Rightarrow> if x = 43 \<or> x = 45 then [x] else []
                                  | [] \<Rightarrow> []);
                            ds = takeWhile isdigit (drop (length sg) r)
                        in if ds = [] then [] else e # sg @ ds)
                     else [])
      in if integer = [] then None
         else Some (if frac = [] \<and> exp = []
                    then PInt (if sign = [] then int (digits_value integer)
                               else - int (digits_value integer))
                    else PFloat (sign @ integer @ frac @ exp),
                    length sign + length integer + length frac + length exp))"

text \<open>
  The tokens: the six punctuation marks, and the atoms (strings, numbers and the
  constants).  White space between tokens is skipped.
\<close>

datatype token = LBrace | RBrace | LBracket | RBracket | Colon | Comma | Atom pyval

definition emit :: "token \<Rightarrow> token list option \<Rightarrow> token list option" where
  "emit t r = map_option ((#) t) r"

fun tokenize :: "pystr \<Rightarrow> token list option" where
  "tokenize [] = Some []"
| "tokenize (c # cs) =
     (if c = 32 \<or> c = 9 \<or> c = 10 \<or> c = 13 then tokenize cs
      else if c = 123 then emit LBrace (tokenize cs)
      else if c = 125 then emit RBrace (tokenize cs)
      else if c = 91 then emit LBracket (tokenize cs)
      else if c = 93 then emit RBracket (tokenize cs)
      else if c = 58 then emit Colon (tokenize cs)
      else if c = 44 then emit Comma (tokenize cs)
      else if c = 34 then
        (case scanstring [] cs of
           None \<Rightarrow> None
         | Some (s, n) \<Rightarrow> emit (Atom (PStr s)) (tokenize (drop n cs)))
      else if startswith (c # cs) (lit ''null'') then emit (Atom PNone) (tokenize (drop 3 cs))
      else if startswith (c # cs) (lit ''true'') then emit (Atom (PBool True)) (tokenize (drop 3 cs))
      else if startswith (c # cs) (lit ''false'') then emit (Atom (PBool False)) (tokenize (drop 4 cs))
      else
        (case match_number (c # cs) of
           Some (v, n) \<Rightarrow> emit (Atom v) (tokenize (drop (n - 1) cs))
         | None \<Rightarrow>
             if startswith (c # cs) (lit ''NaN'')
             then emit (Atom (PFloat (lit ''NaN''))) (tokenize (drop 2 cs))
             else if startswith (c # cs) (lit ''Infinity'')
             then emit (Atom (PFloat (lit ''Infinity''))) (tokenize (drop 7 cs))
             else if startswith (c # cs) (lit ''-Infinity'')
             then emit (Atom (PFloat (lit ''-Infinity''))) (tokenize (drop 8 cs))
             else None))"

text \<open>
  The second pass builds the value from the tokens.  It keeps the containers that are
  open, innermost first: an array with the elements read so far, or an object with its
  entries and, between a key and its value, the key.  \<open>expect\<close> tells what may come
  next; a value that is complete goes to the innermost open container, or is the result
  when none is open.  An object is filled by \<open>dict_setitem\<close>, so a repeated key keeps
  its place and takes the last value.
\<close>

datatype frame = InArray "pyval list" | InObject pydict | InObjectKey pydict pystr

datatype expect =
    ExpValue | ExpValueOrClose | ExpKeyOrClose | ExpKey | ExpColon | ExpCommaOrClose
  | Finished pyval

fun deliver :: "pyval \<Rightarrow> frame list \<Rightarrow> (expect \<times> frame list) option" where
  "deliver v [] = Some (Finished v, [])"
| "deliver v (InArray vs # st) = Some (ExpCommaOrClose, InArray (vs @ [v]) # st)"
| "deliver v (InObjectKey ps k # st) = Some (ExpCommaOrClose, InObject (dict_setitem ps k v) # st)"
| "deliver v (InObject ps # st) = None"

fun start_value :: "token \<Rightarrow> frame list \<Rightarrow> (expect \<times> frame list) option" where
  "start_value (Atom v) st = deliver v st"
| "start_value LBracket st = Some (ExpValueOrClose, InArray [] # st)"
| "start_value LBrace st = Some (ExpKeyOrClose, InObject [] # st)"
| "start_value _ st = None"

fun start_key :: "token \<Rightarrow> frame list \<Rightarrow> (expect \<times> frame list) option" where
  "start_key (Atom (PStr k)) (InObject ps # st) = Some (ExpColon, InObjectKey ps k # st)"
| "start_key _ _ = None"

fun close :: "token \<Rightarrow> frame list \<Rightarrow> (expect \<times> frame list) option" where
  "close RBracket (InArray vs # st) = deliver (PList vs) st"
| "close RBrace (InObject ps # st) = deliver (PDict ps) st"
| "close _ _ = None"

fun parse_step :: "token \<Rightarrow> expect \<times> frame list \<Rightarrow> (expect \<times> frame list) option" where
  "parse_step t (ExpValue, st) = start_value t st"
| "parse_step t (ExpValueOrClose, st) = (if t = RBracket then close t st else start_value t st)"
| "parse_step t (ExpKeyOrClose, st) = (if t = RBrace then close t st else start_key t st)"
| "parse_step t (ExpKey, st) = start_key t st"
| "parse_step t (ExpColon, st) = (if t = Colon then Some (ExpValue, st) else None)"
| "parse_step t (ExpCommaOrClose, st) =
     (if t = Comma then
        (case st of
           InArray vs # _ \<Rightarrow> Some (ExpValue, st)
         | InObject ps # _ \<Rightarrow> Some (ExpKey, st)
         | _ \<Rightarrow> None)
      else close t st)"
| "parse_step t (Finished v, st) = None"

fun parse_tokens :: "token list \<Rightarrow> expect \<times> frame list \<Rightarrow> pyval option" where
  "parse_tokens [] (Finished v, []) = Some v"
| "parse_tokens [] _ = None"
| "parse_tokens (t # ts) state =
     (case parse_step t state of None \<Rightarrow> None | Some state' \<Rightarrow> parse_tokens ts state')"

text \<open>
  \<open>json.loads\<close>: a text that starts with a byte order mark is refused, and so is a text
  that is not exactly one value.
\<close>

definition json_loads :: "pystr \<Rightarrow> loads_result" where
  "json_loads s =
     (if startswith s [65279] then JSONDecodeError
      else case tokenize s of
             None \<Rightarrow> JSONDecodeError
           | Some ts \<Rightarrow>
               (case parse_tokens ts (ExpValue, []) of
                  None \<Rightarrow> JSONDecodeError
                | Some v \<Rightarrow> Parsed v))"

section \<open>The JSON export\<close>

text \<open>
  \<open>datetime.now()\<close> reads the clock: the moment is an input.  \<open>strftime\<close> is modelled
  for the directives the program uses, each a decimal number padded with zeros
  (\<open>%Y\<close> to four digits, the others to two); other characters are copied.
\<close>

record datetime =
  year :: nat
  month :: nat
  day :: nat
  hour :: nat
  minute :: nat
  second :: nat

fun decimal :: "nat \<Rightarrow> pystr" where
  "decimal n = (if n < 10 then [48 + n] else decimal (n div 10) @ [48 + n mod 10])"

declare decimal.simps [simp del]

definition zfill :: "nat \<Rightarrow> pystr \<Rightarrow> pystr" where
  "zfill width s = replicate (width - length s) 48 @ s"

definition directive :: "datetime \<Rightarrow> pychar \<Rightarrow> pystr" where
  "directive t d =
     (if d = 89 then zfill 4 (decimal (year t))
      else if d = 109 then zfill 2 (decimal (month t))
      else if d = 100 then zfill 2 (decimal (day t))
      else if d = 72 then zfill 2 (decimal (hour t))
      else if d = 77 then zfill 2 (decimal (minute t))
      else if d = 83 then zfill 2 (decimal (second t))
      else if d = 37 then [37]
      else [37, d])"

fun strftime :: "datetime \<Rightarrow> pystr \<Rightarrow> pystr" where
  "strftime t (c # d # fmt) =
     (if c = 37 then directive t d @ strftime t fmt else c # strftime t (d # fmt))"
| "strftime t fmt = fmt"

text \<open>
  The moments \<open>datetime.now()\<close> is taken to return: the fields within the ranges
  of a \<open>datetime\<close> object, the year with four digits (how \<open>%Y\<close> prints an
  earlier year depends on the platform).
\<close>

definition datetime_ok :: "datetime \<Rightarrow> bool" where
  "datetime_ok t \<longleftrightarrow>
     1000 \<le> year t \<and> year t \<le> 9999 \<and> 1 \<le> month t \<and> month t \<le> 12 \<and>
     1 \<le> day t \<and> day t \<le> 31 \<and> hour t < 24 \<and> minute t < 60 \<and> second t < 60"

text \<open>The dictionary of lines 110--115, its keys in the order of the source.\<close>

definition quiz_data :: "datetime \<Rightarrow> pyval list \<Rightarrow> pystr \<Rightarrow> pyval" where
  "quiz_data now questions quiz_title =
     PDict [(lit ''quiz_title'', PStr quiz_title),
            (lit ''created_date'', PStr (strftime now (lit ''%Y-%m-%d %H:%M:%S''))),
            (lit ''total_questions'', PInt (int (length questions))),
            (lit ''questions'', PList questions)]"

text \<open>
  Line 116: the text returned is the library's \<open>json.dumps\<close> of that dictionary with
  \<open>indent=2\<close>; the serialiser is a parameter.
\<close>

definition save_quiz_to_file ::
  "(pyval \<Rightarrow> nat \<Rightarrow> pystr) \<Rightarrow> datetime \<Rightarrow> pyval list \<Rightarrow> pystr \<Rightarrow> pystr" where
  "save_quiz_to_file dumps now questions quiz_title =
     dumps (quiz_data now questions quiz_title) 2"

section \<open>The wizard\<close>

text \<open>
  \<open>st.session_state\<close>: the three entries \<open>initialize_session_state\<close> creates.  The
  step is one of the texts \<open>"input"\<close>, \<open>"generated"\<close> and \<open>"saved"\<close>, the only ones the
  program assigns.
\<close>

datatype step = Input | Generated | Saved

record session_state =
  questions :: "pyval list"
  quiz_generated :: bool
  current_step :: step

definition initialize_session_state :: session_state where
  "initialize_session_state =
     \<lparr>questions = [], quiz_generated = False, current_step = Input\<rparr>"

text \<open>
  One run of the script: what the environment and the user supply to it.
  \<open>env_key\<close> is \<open>os.getenv("GOOGLE_API_KEY")\<close> (line 13), \<open>api_key_input\<close> and
  \<open>topic\<close> the contents of the text fields, \<open>response\<close> what the hosted model would
  answer, and each other field tells whether the button of that name was pressed.
\<close>

record run =
  env_key :: "pystr option"
  api_key_input :: pystr
  start_new_quiz :: bool
  topic :: pystr
  generate_questions :: bool
  response :: api_response
  generate_new_quiz :: bool
  edit_questions :: bool
  save_quiz :: bool
  create_another_quiz :: bool
  back_to_quiz :: bool
  generate_more_questions :: bool

text \<open>Lines 137--139: the key typed in the sidebar replaces the one of the environment.\<close>

definition sidebar_key :: "run \<Rightarrow> pystr option" where
  "sidebar_key r = (if api_key_input r \<noteq> [] then Some (api_key_input r) else env_key r)"

text \<open>
  \<open>main\<close>, as a function from the session state before a run to the state after it.
  \<open>st.rerun()\<close> ends the run, so the first button taken decides.  The drawing of the
  widgets is not modelled: it changes no state, and a run that an exception ends while
  drawing leaves the state as a run without a pressed button does.
\<close>

definition main :: "(pystr \<Rightarrow> loads_result) \<Rightarrow> run \<Rightarrow> session_state \<Rightarrow> session_state" where
  "main loads r s =
     (let GOOGLE_API_KEY = sidebar_key r in
      if start_new_quiz r
      then s\<lparr>questions := [], quiz_generated := False, current_step := Input\<rparr>
      else case current_step s of
        Input \<Rightarrow>
          if generate_questions r then
            if topic r \<noteq> [] \<and> key_present GOOGLE_API_KEY then
              (let s1 = s\<lparr>questions :=
                          fst (generate_questions_with_gemini loads GOOGLE_API_KEY (response r))\<rparr>
               in if questions s1 \<noteq> []
                  then s1\<lparr>quiz_generated := True, current_step := Generated\<rparr>
                  else s1)
            else s
          else s
      | Generated \<Rightarrow>
          if questions s \<noteq> [] then
            (if generate_new_quiz r then s\<lparr>current_step := Input\<rparr>
             else if save_quiz r then s\<lparr>current_step := Saved\<rparr>
             else s)
          else s
      | Saved \<Rightarrow>
          if create_another_quiz r
          then s\<lparr>questions := [], quiz_generated := False, current_step := Input\<rparr>
          else if back_to_quiz r then s\<lparr>current_step := Generated\<rparr>
          else if generate_more_questions r then s\<lparr>current_step := Input\<rparr>
          else s)"

text \<open>The states the wizard can be in: the initial one, and those a run leads to.\<close>

inductive reachable :: "(pystr \<Rightarrow> loads_result) \<Rightarrow> session_state \<Rightarrow> bool"
  for loads :: "pystr \<Rightarrow> loads_result" where
  initial: "reachable loads initialize_session_state"
| after_run: "reachable loads s \<Longrightarrow> reachable loads (main loads r s)"

section \<open>The notions of the specification\<close>

text \<open>
  A \<open>QuestionRecord\<close> as the data model of the specification describes it: a
  non-empty text \<open>question\<close>, at least two \<open>options\<close>, all texts, an integer
  \<open>correct_answer\<close> that indexes them, and a text \<open>explanation\<close>.
\<close>

definition is_text :: "pyval \<Rightarrow> bool" where
  "is_text v = (case v of PStr s \<Rightarrow> True | _ \<Rightarrow> False)"

fun spec_QuestionRecord :: "pyval \<Rightarrow> bool" where
  "spec_QuestionRecord (PDict d) =
     ((case dict_getitem d (lit ''question'') of Some (PStr s) \<Rightarrow> s \<noteq> [] | _ \<Rightarrow> False) \<and>
      (case dict_getitem d (lit ''options'') of
         Some (PList opts) \<Rightarrow>
           2 \<le> length opts \<and> list_all is_text opts \<and>
           (case dict_getitem d (lit ''correct_answer'') of
              Some (PInt n) \<Rightarrow> 0 \<le> n \<and> n < int (length opts)
            | _ \<Rightarrow> False)
       | _ \<Rightarrow> False) \<and>
      (case dict_getitem d (lit ''explanation'') of Some (PStr e) \<Rightarrow> True | _ \<Rightarrow> False))"
| "spec_QuestionRecord _ = False"

text \<open>
  The shape the test of lines 77--84 checks for: a dictionary with a \<open>question\<close>, a
  list of at least two \<open>options\<close>, and a \<open>correct_answer\<close> that is an integer
  indexing the options.  Nothing is said here about a \<open>correct_answer\<close> that is a
  Boolean.
\<close>

fun checked_shape :: "pyval \<Rightarrow> bool" where
  "checked_shape (PDict d) =
     (dict_contains d (lit ''question'') \<and>
      (case dict_getitem d (lit ''options'') of
         Some (PList opts) \<Rightarrow>
           2 \<le> length opts \<and>
           (case dict_getitem d (lit ''correct_answer'') of
              Some (PInt n) \<Rightarrow> 0 \<le> n \<and> n < int (length opts)
            | Some (PBool b) \<Rightarrow> True
            | _ \<Rightarrow> False)
       | _ \<Rightarrow> False))"
| "checked_shape _ = False"

fun has_explanation :: "pyval \<Rightarrow> bool" where
  "has_explanation (PDict d) = dict_contains d (lit ''explanation'')"
| "has_explanation _ = False"

text \<open>
  A payload wrapped in fenced-code markers: a line of three backticks and a language
  tag (possibly empty), the payload, and a line of three backticks.
\<close>

definition fence_wrap :: "pystr \<Rightarrow> pystr \<Rightarrow> pystr" where
  "fence_wrap tag payload = lit ''```'' @ tag @ [10] @ payload @ [10] @ lit ''```''"

text \<open>
  A text has a format such as \<open>YYYY-MM-DD HH:MM:SS\<close> when it has a digit wherever
  the format has a capital letter and the format's character everywhere else.
\<close>

fun has_format :: "pystr \<Rightarrow> pystr \<Rightarrow> bool" where
  "has_format [] [] = True"
| "has_format (c # s) (f # fmt) =
     ((if 65 \<le> f \<and> f \<le> 90 then isdigit c else c = f) \<and> has_format s fmt)"
| "has_format _ _ = False"

section \<open>Properties of the validation loop\<close>

lemma validate_loop_acc:
  "validate_loop qs acc = acc @ map ensure_explanation (filter valid_question qs)"
  by (induction qs arbitrary: acc) simp_all

lemma validate_loop_filter:
  "validate_loop qs [] = map ensure_explanation (filter valid_question qs)"
  by (simp add: validate_loop_acc)

lemma parseAndValidate_records:
  assumes "loads (clean_content text) = Parsed (PList es)"
  shows "fst (parseAndValidate loads text) = map ensure_explanation (filter valid_question es)"
  using assms by (simp add: parseAndValidate_def Let_def validate_loop_filter)

lemma dict_setitem_absent:
  "\<not> dict_contains d k \<Longrightarrow> dict_setitem d k v = d @ [(k, v)]"
  by (induction d) (auto simp: dict_contains_def)

lemma map_of_dict_setitem:
  "map_of (dict_setitem d k v) k' = (if k' = k then Some v else map_of d k')"
  by (induction d) auto

lemma valid_question_ensure_explanation:
  "valid_question (ensure_explanation q) = valid_question q"
proof (cases q)
  case (PDict d)
  have "lit ''question'' \<noteq> lit ''explanation''" "lit ''options'' \<noteq> lit ''explanation''"
    "lit ''correct_answer'' \<noteq> lit ''explanation''"
    by (simp_all add: lit_def)
  then show ?thesis using PDict
    by (auto simp: dict_contains_def dict_getitem_def map_of_dict_setitem
             split: option.splits pyval.splits)
qed simp_all

text \<open>The definitions that running the routine on a concrete text unfolds.\<close>

lemmas run_defs =
  lit_def isspace_def lstrip_def rstrip_def strip_def startswith_def endswith_def
  clean_content_def dict_contains_def dict_getitem_def placeholder_def
  parseAndValidate_def isdigit_def advance_def scan_escape_def digits_value_def
  match_number_def emit_def json_loads_def Let_def

section \<open>The claims\<close>

text \<open>
  C9.  When the cleaned text decodes to an array, the validated output consists of the
  elements of the array that pass the test of lines 77--84, in the order of the array,
  each once and each as the loop left it (\<open>ensure_explanation\<close> is the assignment of
  line 88 to the element itself): the kept elements are a subsequence of the array,
  and nothing else enters the output.
\<close>

theorem validation_keeps_order:
  assumes "loads (clean_content text) = Parsed (PList es)"
  shows "fst (parseAndValidate loads text) = map ensure_explanation (filter valid_question es)
         \<and> subseq (filter valid_question es) es"
  using assms by (simp add: parseAndValidate_records)

theorem validation_keeps_order_witness:
  \<open>fst (parseAndValidate json_loads
      (lit ''[{"question":"Q1","options":["A","B"],"correct_answer":1,"explanation":"E"}, 7, {"question":"Q2","options":["A","B","C"],"correct_answer":0,"explanation":"F"}]''))
   = [PDict [(lit ''question'', PStr (lit ''Q1'')),
             (lit ''options'', PList [PStr (lit ''A''), PStr (lit ''B'')]),
             (lit ''correct_answer'', PInt 1), (lit ''explanation'', PStr (lit ''E''))],
      PDict [(lit ''question'', PStr (lit ''Q2'')),
             (lit ''options'', PList [PStr (lit ''A''), PStr (lit ''B''), PStr (lit ''C'')]),
             (lit ''correct_answer'', PInt 0), (lit ''explanation'', PStr (lit ''F''))]]\<close>
proof -
  let ?t = \<open>lit ''[{"question":"Q1","options":["A","B"],"correct_answer":1,"explanation":"E"}, 7, {"question":"Q2","options":["A","B","C"],"correct_answer":0,"explanation":"F"}]''\<close>
  obtain es where es: "json_loads (clean_content ?t) = Parsed (PList es)"
    and v: "map ensure_explanation (filter valid_question es) =
      [PDict [(lit ''question'', PStr (lit ''Q1'')),
              (lit ''options'', PList [PStr (lit ''A''), PStr (lit ''B'')]),
              (lit ''correct_answer'', PInt 1), (lit ''explanation'', PStr (lit ''E''))],
       PDict [(lit ''question'', PStr (lit ''Q2'')),
              (lit ''options'', PList [PStr (lit ''A''), PStr (lit ''B''), PStr (lit ''C'')]),
              (lit ''correct_answer'', PInt 0), (lit ''explanation'', PStr (lit ''F''))]]"
    by (simp add: run_defs)
  from validation_keeps_order [of json_loads ?t es, OF es] v show ?thesis by simp
qed

lemma validate_loop_none:
  "\<forall>q\<in>set qs. \<not> valid_question q \<Longrightarrow> validate_loop qs [] = []"
  by (simp add: validate_loop_filter filter_empty_conv)

text \<open>
  C4.  When the cleaned text decodes to an array none of whose elements passes the
  test of lines 77--84 (the empty array is one), the routine returns the empty list
  and reports \<open>NoValidQuestions\<close>.
\<close>

theorem all_invalid_gives_NoValidQuestions:
  assumes "loads (clean_content text) = Parsed (PList es)"
    and "\<forall>e\<in>set es. \<not> valid_question e"
  shows "parseAndValidate loads text = ([], NoValidQuestions)"
  using assms by (simp add: parseAndValidate_def Let_def validate_loop_none)

theorem all_invalid_gives_NoValidQuestions_witness:
  \<open>parseAndValidate json_loads (lit ''[]'') = ([], NoValidQuestions) \<and>
   parseAndValidate json_loads
     (lit ''[{"question":"Q1","options":["A"],"correct_answer":0}, 7, "x", {"options":["A","B"],"correct_answer":0}]'')
     = ([], NoValidQuestions)\<close>
proof -
  let ?a = \<open>lit ''[]''\<close>
  let ?b = \<open>lit ''[{"question":"Q1","options":["A"],"correct_answer":0}, 7, "x", {"options":["A","B"],"correct_answer":0}]''\<close>
  obtain es where a: "json_loads (clean_content ?a) = Parsed (PList es)"
    and a': "\<forall>e\<in>set es. \<not> valid_question e"
    by (simp add: run_defs)
  obtain fs where b: "json_loads (clean_content ?b) = Parsed (PList fs)"
    and b': "\<forall>e\<in>set fs. \<not> valid_question e"
    by (simp add: run_defs)
  from all_invalid_gives_NoValidQuestions [of json_loads ?a es, OF a a']
    all_invalid_gives_NoValidQuestions [of json_loads ?b fs, OF b b']
  show ?thesis by simp
qed

text \<open>
  C10.  An element of the decoded array that passes the test is a dictionary, and the
  record the output holds for it is that dictionary with every key and value it had,
  in their order, extra keys included; the only change is the key \<open>explanation\<close>
  with the placeholder, added at the end when the element had no such key.
\<close>

theorem accepted_element_unchanged:
  assumes "loads (clean_content text) = Parsed (PList es)"
    and "e \<in> set es" and "valid_question e"
  shows "\<exists>d. e = PDict d \<and>
           ensure_explanation e =
             PDict (if dict_contains d (lit ''explanation'') then d
                    else d @ [(lit ''explanation'', PStr placeholder)]) \<and>
           ensure_explanation e \<in> set (fst (parseAndValidate loads text))"
proof -
  from assms(3) obtain d where d: "e = PDict d" by (cases e) simp_all
  have "ensure_explanation e \<in> set (map ensure_explanation (filter valid_question es))"
    using assms(2,3) by simp
  then have "ensure_explanation e \<in> set (fst (parseAndValidate loads text))"
    using assms(1) by (simp add: parseAndValidate_records)
  with d show ?thesis by (simp add: dict_setitem_absent)
qed

theorem accepted_element_unchanged_witness:
  \<open>PDict [(lit ''id'', PInt 5), (lit ''question'', PStr (lit ''Q1'')),
          (lit ''options'', PList [PStr (lit ''A''), PStr (lit ''B'')]),
          (lit ''correct_answer'', PInt 1),
          (lit ''explanation'', PStr (lit ''Explanation not provided.''))]
     \<in> set (fst (parseAndValidate json_loads
          (lit ''[{"id":5,"question":"Q1","options":["A","B"],"correct_answer":1}]'')))\<close>
proof -
  let ?t = \<open>lit ''[{"id":5,"question":"Q1","options":["A","B"],"correct_answer":1}]''\<close>
  let ?e = "PDict [(lit ''id'', PInt 5), (lit ''question'', PStr (lit ''Q1'')),
          (lit ''options'', PList [PStr (lit ''A''), PStr (lit ''B'')]),
          (lit ''correct_answer'', PInt 1)]"
  have 1: "json_loads (clean_content ?t) = Parsed (PList [?e])" by (simp add: run_defs)
  have 2: "?e \<in> set [?e]" by simp
  have 3: "valid_question ?e" by (simp add: run_defs)
  from accepted_element_unchanged [of json_loads ?t "[?e]" ?e, OF 1 2 3]
  show ?thesis by (simp add: run_defs)
qed

lemma valid_question_checked_shape: "valid_question q \<Longrightarrow> checked_shape q"
  by (cases q)
     (auto simp: dict_getitem_def split: option.splits pyval.splits elim: int_value.elims)

lemma has_explanation_ensure_explanation:
  "valid_question q \<Longrightarrow> has_explanation (ensure_explanation q)"
  by (cases q) (auto simp: dict_contains_def map_of_dict_setitem)

lemma parseAndValidate_output:
  "\<exists>qs. fst (parseAndValidate loads text) = map ensure_explanation (filter valid_question qs)"
proof (cases "loads (clean_content text)")
  case (Parsed v)
  show ?thesis
  proof (cases "py_iter v")
    case None
    with Parsed have "fst (parseAndValidate loads text) = map ensure_explanation (filter valid_question [])"
      by (simp add: parseAndValidate_def)
    then show ?thesis by blast
  next
    case (Some qs)
    with Parsed have "fst (parseAndValidate loads text) = map ensure_explanation (filter valid_question qs)"
      by (simp add: parseAndValidate_def Let_def validate_loop_filter)
    then show ?thesis by blast
  qed
next
  case JSONDecodeError
  then have "fst (parseAndValidate loads text) = map ensure_explanation (filter valid_question [])"
    by (simp add: parseAndValidate_def)
  then show ?thesis by blast
next
  case OtherException
  then have "fst (parseAndValidate loads text) = map ensure_explanation (filter valid_question [])"
    by (simp add: parseAndValidate_def)
  then show ?thesis by blast
qed

lemma output_record_valid:
  assumes "r \<in> set (fst (parseAndValidate loads text))"
  shows "valid_question r \<and> has_explanation r"
proof -
  obtain qs where "fst (parseAndValidate loads text) = map ensure_explanation (filter valid_question qs)"
    using parseAndValidate_output by blast
  with assms obtain q where "valid_question q" "r = ensure_explanation q" by auto
  then show ?thesis
    by (simp add: valid_question_ensure_explanation has_explanation_ensure_explanation)
qed

text \<open>
  C1, as the code has it.  Every record of the output has the shape the test of lines
  77--84 checks for, and has the key \<open>explanation\<close>; and when the cleaned text
  decodes to an array, an element without that shape is not in the output.  The test
  looks at the presence of \<open>question\<close> only, and at neither the elements of
  \<open>options\<close> nor the value of an \<open>explanation\<close> that is present: that the question
  is a non-empty text, the options texts and the explanation a text is not
  established.
\<close>

theorem output_records_checked:
  "(\<forall>r\<in>set (fst (parseAndValidate loads text)). checked_shape r \<and> has_explanation r) \<and>
   (\<forall>es. loads (clean_content text) = Parsed (PList es) \<longrightarrow>
      (\<forall>e\<in>set es. \<not> checked_shape e \<longrightarrow> e \<notin> set (fst (parseAndValidate loads text))))"
  using output_record_valid valid_question_checked_shape by blast

theorem output_records_checked_witness:
  \<open>checked_shape (PDict [(lit ''question'', PStr (lit ''Q2'')),
          (lit ''options'', PList [PStr (lit ''A''), PStr (lit ''B'')]),
          (lit ''correct_answer'', PInt 1),
          (lit ''explanation'', PStr (lit ''Explanation not provided.''))]) \<and>
   PDict [(lit ''question'', PStr (lit ''Q1'')),
          (lit ''options'', PList [PStr (lit ''A''), PStr (lit ''B'')]),
          (lit ''correct_answer'', PInt 5)]
     \<notin> set (fst (parseAndValidate json_loads
          (lit ''[{"question":"Q1","options":["A","B"],"correct_answer":5}, {"question":"Q2","options":["A","B"],"correct_answer":1}]'')))\<close>
proof -
  let ?t = \<open>lit ''[{"question":"Q1","options":["A","B"],"correct_answer":5}, {"question":"Q2","options":["A","B"],"correct_answer":1}]''\<close>
  let ?e1 = "PDict [(lit ''question'', PStr (lit ''Q1'')),
          (lit ''options'', PList [PStr (lit ''A''), PStr (lit ''B'')]),
          (lit ''correct_answer'', PInt 5)]"
  let ?e2 = "PDict [(lit ''question'', PStr (lit ''Q2'')),
          (lit ''options'', PList [PStr (lit ''A''), PStr (lit ''B'')]),
          (lit ''correct_answer'', PInt 1)]"
  let ?r2 = "PDict [(lit ''question'', PStr (lit ''Q2'')),
          (lit ''options'', PList [PStr (lit ''A''), PStr (lit ''B'')]),
          (lit ''correct_answer'', PInt 1),
          (lit ''explanation'', PStr (lit ''Explanation not provided.''))]"
  have 1: "json_loads (clean_content ?t) = Parsed (PList [?e1, ?e2])" by (simp add: run_defs)
  have 2: "fst (parseAndValidate json_loads ?t) = [?r2]" by (simp add: run_defs)
  have 3: "\<not> checked_shape ?e1" by (simp add: run_defs)
  from output_records_checked [of json_loads ?t] 1 2 3 show ?thesis by simp
qed

text \<open>
  C1 as stated fails: an element whose \<open>question\<close> is the empty text is accepted, and
  the record returned for it is not a \<open>QuestionRecord\<close> of the data model.
\<close>

theorem empty_question_accepted:
  \<open>parseAndValidate json_loads (lit ''[{"question":"","options":["A","B"],"correct_answer":0}]'')
     = ([PDict [(lit ''question'', PStr []),
                (lit ''options'', PList [PStr (lit ''A''), PStr (lit ''B'')]),
                (lit ''correct_answer'', PInt 0),
                (lit ''explanation'', PStr (lit ''Explanation not provided.''))]], Success 1) \<and>
   \<not> spec_QuestionRecord
       (PDict [(lit ''question'', PStr []),
               (lit ''options'', PList [PStr (lit ''A''), PStr (lit ''B'')]),
               (lit ''correct_answer'', PInt 0),
               (lit ''explanation'', PStr (lit ''Explanation not provided.''))])\<close>
  by (simp add: run_defs)

text \<open>
  C2, for a non-empty array.  When the cleaned text decodes to a non-empty array all of
  whose elements pass the test, the routine returns one record for each element, in
  order, and reports success with their number; the record of an element is the element
  itself when it has the key \<open>explanation\<close>, and the element with the placeholder
  added under that key when it has not.
\<close>

theorem all_valid_gives_all:
  assumes "loads (clean_content text) = Parsed (PList es)"
    and "es \<noteq> []" and "\<forall>e\<in>set es. valid_question e"
  shows "parseAndValidate loads text = (map ensure_explanation es, Success (length es)) \<and>
         (\<forall>e\<in>set es. \<exists>d. e = PDict d \<and>
            ensure_explanation e =
              (if dict_contains d (lit ''explanation'') then e
               else PDict (d @ [(lit ''explanation'', PStr placeholder)])))"
proof -
  from assms(3) have f: "filter valid_question es = es" by simp
  have "parseAndValidate loads text = (map ensure_explanation es, Success (length es))"
    using assms(1,2) by (simp add: parseAndValidate_def Let_def validate_loop_filter f)
  moreover have "\<exists>d. e = PDict d \<and>
            ensure_explanation e =
              (if dict_contains d (lit ''explanation'') then e
               else PDict (d @ [(lit ''explanation'', PStr placeholder)]))"
    if "e \<in> set es" for e
  proof -
    from that assms(3) have "valid_question e" by simp
    then obtain d where "e = PDict d" by (cases e) simp_all
    then show ?thesis by (simp add: dict_setitem_absent)
  qed
  ultimately show ?thesis by blast
qed

theorem all_valid_gives_all_witness:
  \<open>parseAndValidate json_loads
     (lit ''[{"question":"Q1","options":["A","B","C"],"correct_answer":1}]'')
     = ([PDict [(lit ''question'', PStr (lit ''Q1'')),
                (lit ''options'', PList [PStr (lit ''A''), PStr (lit ''B''), PStr (lit ''C'')]),
                (lit ''correct_answer'', PInt 1),
                (lit ''explanation'', PStr (lit ''Explanation not provided.''))]], Success 1)\<close>
proof -
  let ?t = \<open>lit ''[{"question":"Q1","options":["A","B","C"],"correct_answer":1}]''\<close>
  let ?e = "PDict [(lit ''question'', PStr (lit ''Q1'')),
                (lit ''options'', PList [PStr (lit ''A''), PStr (lit ''B''), PStr (lit ''C'')]),
                (lit ''correct_answer'', PInt 1)]"
  have 1: "json_loads (clean_content ?t) = Parsed (PList [?e])" by (simp add: run_defs)
  have 2: "[?e] \<noteq> []" by simp
  have 3: "\<forall>e\<in>set [?e]. valid_question e" by (simp add: run_defs)
  from all_valid_gives_all [of json_loads ?t "[?e]", OF 1 2 3]
  show ?thesis by (simp add: run_defs)
qed

text \<open>
  C2 as stated fails on the empty array: all of its elements are valid, none is
  returned, and an error is reported.
\<close>

theorem empty_array_reports_error:
  \<open>json_loads (clean_content (lit ''[]'')) = Parsed (PList []) \<and>
   list_all valid_question [] \<and>
   parseAndValidate json_loads (lit ''[]'') = ([], NoValidQuestions)\<close>
  by (simp add: run_defs)

text \<open>
  C3, for a text that is not JSON.  When the decoder rejects the cleaned text
  (\<open>JSONDecodeError\<close>), the routine returns the empty list and reports
  \<open>MalformedResponse\<close> with the excerpt \<open>content[:500]\<close> of the cleaned text, of at
  most 500 characters.
\<close>

theorem invalid_json_gives_MalformedResponse:
  assumes "loads (clean_content text) = JSONDecodeError"
  shows "parseAndValidate loads text = ([], MalformedResponse (take 500 (clean_content text))) \<and>
         length (take 500 (clean_content text)) \<le> 500"
  using assms by (simp add: parseAndValidate_def)

theorem invalid_json_gives_MalformedResponse_witness:
  \<open>parseAndValidate json_loads (lit ''  Here are your questions: [1, 2]  '')
     = ([], MalformedResponse (lit ''Here are your questions: [1, 2]''))\<close>
proof -
  let ?t = \<open>lit ''  Here are your questions: [1, 2]  ''\<close>
  have 1: "json_loads (clean_content ?t) = JSONDecodeError" by (simp add: run_defs)
  from invalid_json_gives_MalformedResponse [of json_loads ?t, OF 1]
  show ?thesis by (simp add: run_defs)
qed

text \<open>
  C3 as stated fails on a text that is JSON but not an array: for an object the loop
  runs over the keys and the report is \<open>NoValidQuestions\<close>; for a number the loop
  raises \<open>TypeError\<close> and the report is the one of line 105.  Neither is
  \<open>MalformedResponse\<close>, and no excerpt is shown.
\<close>

theorem json_object_not_malformed:
  \<open>json_loads (clean_content (lit ''{"question":"Q1"}''))
     = Parsed (PDict [(lit ''question'', PStr (lit ''Q1''))]) \<and>
   parseAndValidate json_loads (lit ''{"question":"Q1"}'') = ([], NoValidQuestions) \<and>
   json_loads (clean_content (lit ''5'')) = Parsed (PInt 5) \<and>
   parseAndValidate json_loads (lit ''5'') = ([], ApiError)\<close>
  by (simp add: run_defs)

text \<open>
  What holds of C6: an element whose \<open>correct_answer\<close> is an integer out of bounds,
  or is neither an integer nor a Boolean, does not pass the test.
\<close>

lemma correct_answer_rejected:
  assumes "dict_getitem d (lit ''options'') = Some (PList opts)"
    and "dict_getitem d (lit ''correct_answer'') = Some v"
    and "(\<exists>n. v = PInt n \<and> (n < 0 \<or> int (length opts) \<le> n)) \<or>
         ((\<forall>n. v \<noteq> PInt n) \<and> (\<forall>b. v \<noteq> PBool b))"
  shows "\<not> valid_question (PDict d)"
  using assms by (cases v) auto

text \<open>
  C6.  The routine on an element whose \<open>correct_answer\<close> is the JSON value \<open>true\<close>,
  which is not an integer: \<open>isinstance(True, int)\<close> holds in Python and
  \<open>0 <= True < 2\<close> compares \<open>True\<close> as 1, so the element is kept.
\<close>

theorem boolean_correct_answer_accepted:
  \<open>parseAndValidate json_loads
     (lit ''[{"question":"Q","options":["True","False"],"correct_answer":true}]'')
     = ([PDict [(lit ''question'', PStr (lit ''Q'')),
                (lit ''options'', PList [PStr (lit ''True''), PStr (lit ''False'')]),
                (lit ''correct_answer'', PBool True),
                (lit ''explanation'', PStr (lit ''Explanation not provided.''))]], Success 1)\<close>
  by (simp add: run_defs)

lemma strip_Nil: "strip [] = []"
  by (simp add: strip_def lstrip_def rstrip_def)

lemma strip_unchanged:
  assumes "s \<noteq> []" and "\<not> isspace (hd s)" and "\<not> isspace (last s)"
  shows "strip s = s"
proof -
  have "dropWhile isspace s = s" using assms(2) by (simp add: dropWhile_eq_self_iff)
  moreover have "dropWhile isspace (rev s) = rev s"
    using assms(1,3) by (simp add: dropWhile_eq_self_iff hd_rev)
  ultimately show ?thesis by (simp add: strip_def lstrip_def rstrip_def)
qed

lemma last_dropWhile:
  assumes "dropWhile P xs \<noteq> []"
  shows "last (dropWhile P xs) = last xs"
proof -
  have "last xs = last (takeWhile P xs @ dropWhile P xs)" by simp
  also have "\<dots> = last (dropWhile P xs)" using assms by (simp only: last_append if_False)
  finally show ?thesis by simp
qed

lemma strip_idem: "strip (strip s) = strip s"
proof (cases "strip s = []")
  case True
  then show ?thesis by (simp add: strip_Nil)
next
  case False
  let ?u = "dropWhile isspace s"
  let ?v = "dropWhile isspace (rev ?u)"
  have s: "strip s = rev ?v" by (simp add: strip_def lstrip_def rstrip_def)
  with False have v: "?v \<noteq> []" by simp
  have u: "?u \<noteq> []"
  proof
    assume a: "?u = []"
    have "?v = []" unfolding a by simp
    with v show False by (simp only:)
  qed
  have "last (strip s) = hd ?v" using v by (simp add: s last_rev)
  then have 1: "\<not> isspace (last (strip s))" using v by (simp add: hd_dropWhile)
  have "hd (strip s) = last ?v" using v by (simp add: s hd_rev)
  also have "\<dots> = last (rev ?u)" using v by (rule last_dropWhile)
  also have "\<dots> = hd ?u" using u by (simp add: last_rev)
  finally have 2: "\<not> isspace (hd (strip s))" using u by (simp add: hd_dropWhile)
  from False 2 1 show ?thesis by (rule strip_unchanged)
qed

lemma isspace_newline: "isspace 10"
  by (simp add: isspace_def)

lemma lstrip_newline: "lstrip (10 # s) = lstrip s"
  by (simp add: lstrip_def isspace_newline)

lemma rstrip_newline: "rstrip (s @ [10]) = rstrip s"
  by (simp add: rstrip_def isspace_newline)

lemma strip_between_newlines: "strip (10 # p @ [10]) = strip p"
proof (cases "lstrip p = []")
  case True
  then have "\<forall>c\<in>set p. isspace c" by (simp add: lstrip_def)
  then have "lstrip (p @ [10]) = []" by (simp add: lstrip_def isspace_newline)
  with True show ?thesis by (simp add: strip_def lstrip_newline)
next
  case False
  then have "\<exists>c\<in>set p. \<not> isspace c" by (simp add: lstrip_def)
  then have "lstrip (p @ [10]) = lstrip p @ [10]"
    by (auto simp: lstrip_def dropWhile_append1)
  then show ?thesis by (simp add: strip_def lstrip_newline rstrip_newline)
qed

lemma startswith_append: "startswith s (a @ b) \<Longrightarrow> startswith s a"
proof -
  assume "startswith s (a @ b)"
  then have "take (length (a @ b)) s = a @ b" by (simp add: startswith_def)
  then have "take (length a) (take (length (a @ b)) s) = take (length a) (a @ b)" by simp
  then show ?thesis by (simp add: startswith_def min_def)
qed

lemma startswith_json_fence:
  "startswith s (lit ''```json'') \<Longrightarrow> startswith s (lit ''```'')"
proof -
  have "lit ''```json'' = lit ''```'' @ lit ''json''" by (simp add: lit_def)
  then show "startswith s (lit ''```json'') \<Longrightarrow> startswith s (lit ''```'')"
    by (simp only: startswith_append)
qed

lemma clean_content_plain:
  assumes "\<not> startswith (strip payload) (lit ''```'')"
    and "\<not> endswith (strip payload) (lit ''```'')"
  shows "clean_content payload = strip payload"
  using assms startswith_json_fence [of "strip payload"]
  by (auto simp: clean_content_def Let_def strip_idem)

lemma clean_content_fenced:
  "clean_content (96 # 96 # 96 # 10 # p @ [10, 96, 96, 96]) = strip p"
proof -
  let ?w = "96 # 96 # 96 # 10 # p @ [10, 96, 96, 96]"
  have w: "strip ?w = ?w" by (rule strip_unchanged) (simp_all add: isspace_def)
  have e: "endswith (10 # p @ [10, 96, 96, 96]) [96, 96, 96]"
    by (simp add: endswith_def)
  have t: "take (length (10 # p @ [10, 96, 96, 96]) - 3) (10 # p @ [10, 96, 96, 96]) = 10 # p @ [10]"
    by simp
  have "clean_content ?w = strip (10 # p @ [10])"
    unfolding clean_content_def Let_def w using e t
    by (simp add: startswith_def lit_def)
  then show ?thesis by (simp add: strip_between_newlines)
qed

lemma clean_content_fenced_json:
  "clean_content (96 # 96 # 96 # 106 # 115 # 111 # 110 # 10 # p @ [10, 96, 96, 96]) = strip p"
proof -
  let ?w = "96 # 96 # 96 # 106 # 115 # 111 # 110 # 10 # p @ [10, 96, 96, 96]"
  have w: "strip ?w = ?w" by (rule strip_unchanged) (simp_all add: isspace_def)
  have e: "endswith (10 # p @ [10, 96, 96, 96]) [96, 96, 96]"
    by (simp add: endswith_def)
  have t: "take (length (10 # p @ [10, 96, 96, 96]) - 3) (10 # p @ [10, 96, 96, 96]) = 10 # p @ [10]"
    by simp
  have "clean_content ?w = strip (10 # p @ [10])"
    unfolding clean_content_def Let_def w using e t
    by (simp add: startswith_def lit_def)
  then show ?thesis by (simp add: strip_between_newlines)
qed

lemma clean_content_fence_wrap:
  assumes "tag = [] \<or> tag = lit ''json''"
  shows "clean_content (fence_wrap tag payload) = strip payload"
  using assms clean_content_fenced [of payload] clean_content_fenced_json [of payload]
  by (auto simp: fence_wrap_def lit_def)

lemma parseAndValidate_cong:
  "clean_content a = clean_content b \<Longrightarrow> parseAndValidate loads a = parseAndValidate loads b"
  by (simp add: parseAndValidate_def)

text \<open>
  C5, for the markers the code removes.  A payload wrapped in fenced-code markers,
  without a language tag or with the tag \<open>json\<close>, gives the same records and the same
  report as the payload itself, provided the payload, once trimmed, neither begins nor
  ends with three backticks of its own (the code would take them for markers).
\<close>

theorem fence_wrap_same_result:
  assumes "tag = [] \<or> tag = lit ''json''"
    and "\<not> startswith (strip payload) (lit ''```'')"
    and "\<not> endswith (strip payload) (lit ''```'')"
  shows "parseAndValidate loads (fence_wrap tag payload) = parseAndValidate loads payload"
  using assms
  by (intro parseAndValidate_cong) (simp add: clean_content_fence_wrap clean_content_plain)

theorem fence_wrap_same_result_witness:
  \<open>parseAndValidate json_loads (fence_wrap (lit ''json'') (lit ''[]''))
     = parseAndValidate json_loads (lit ''[]'') \<and>
   parseAndValidate json_loads (fence_wrap (lit ''json'') (lit ''[]'')) = ([], NoValidQuestions) \<and>
   parseAndValidate json_loads
     (fence_wrap [] (lit ''[{"question":"Q1","options":["A","B","C"],"correct_answer":1}]''))
     = parseAndValidate json_loads
         (lit ''[{"question":"Q1","options":["A","B","C"],"correct_answer":1}]'')\<close>
proof -
  let ?p = \<open>lit ''[]''\<close>
  let ?q = \<open>lit ''[{"question":"Q1","options":["A","B","C"],"correct_answer":1}]''\<close>
  have 1: "lit ''json'' = [] \<or> lit ''json'' = lit ''json''" by simp
  have 2: "\<not> startswith (strip ?p) (lit ''```'')" by (simp add: run_defs)
  have 3: "\<not> endswith (strip ?p) (lit ''```'')" by (simp add: run_defs)
  have 4: "[] = [] \<or> [] = lit ''json''" by simp
  have 5: "\<not> startswith (strip ?q) (lit ''```'')" by (simp add: run_defs)
  have 6: "\<not> endswith (strip ?q) (lit ''```'')" by (simp add: run_defs)
  have 7: "parseAndValidate json_loads ?p = ([], NoValidQuestions)" by (simp add: run_defs)
  from fence_wrap_same_result [of "lit ''json''" ?p json_loads, OF 1 2 3]
    fence_wrap_same_result [of "[]" ?q json_loads, OF 4 5 6] 7
  show ?thesis by simp
qed

text \<open>
  C5 as stated fails for another language tag: only \<open>json\<close> is removed with the
  leading marker (line 63), so the tag \<open>python\<close> stays in front of the payload and the
  decoder rejects the text, while the payload alone decodes to the empty array.
\<close>

theorem other_language_tag_differs:
  \<open>parseAndValidate json_loads (fence_wrap (lit ''python'') (lit ''[]''))
     = ([], MalformedResponse (lit ''python'' @ [10] @ lit ''[]'')) \<and>
   parseAndValidate json_loads (lit ''[]'') = ([], NoValidQuestions)\<close>
  by (simp add: run_defs fence_wrap_def)

lemma mod10_le9: "(k::nat) mod 10 \<le> 9"
proof -
  have "k mod 10 < 10" by (rule mod_less_divisor) simp
  then show ?thesis by arith
qed

lemma two_digits:
  assumes "n < 100"
  shows "\<exists>a b. zfill 2 (decimal n) = [a, b] \<and> isdigit a \<and> isdigit b"
proof (cases "n < 10")
  case True
  then have "zfill 2 (decimal n) = [48, 48 + n]"
    by (simp add: decimal.simps [of n] zfill_def)
  with True show ?thesis by (simp add: isdigit_def)
next
  case False
  with assms have "n div 10 < 10" by simp
  with False have "zfill 2 (decimal n) = [48 + n div 10, 48 + n mod 10]"
    by (simp add: decimal.simps [of n] decimal.simps [of "n div 10"] zfill_def)
  moreover have "n mod 10 < 10" by simp
  ultimately show ?thesis using \<open>n div 10 < 10\<close> by (simp add: isdigit_def)
qed

lemma four_digits:
  assumes "1000 \<le> n" and "n \<le> 9999"
  shows "\<exists>a b c d. zfill 4 (decimal n) = [a, b, c, d] \<and>
           isdigit a \<and> isdigit b \<and> isdigit c \<and> isdigit d"
proof -
  from assms have 1: "\<not> n < 10" "\<not> n div 10 < 10" "\<not> n div 10 div 10 < 10"
    "n div 10 div 10 div 10 < 10"
    by simp_all
  then have "decimal n = [48 + n div 10 div 10 div 10, 48 + n div 10 div 10 mod 10,
                          48 + n div 10 mod 10, 48 + n mod 10]"
    by (simp add: decimal.simps [of n] decimal.simps [of "n div 10"]
          decimal.simps [of "n div 10 div 10"] decimal.simps [of "n div 10 div 10 div 10"])
  moreover have "n div 10 div 10 mod 10 \<le> 9" "n div 10 mod 10 \<le> 9" "n mod 10 \<le> 9"
    by (rule mod10_le9)+
  ultimately show ?thesis using 1(4) by (simp add: zfill_def isdigit_def)
qed

lemma strftime_format:
  assumes "datetime_ok t"
  shows "has_format (strftime t (lit ''%Y-%m-%d %H:%M:%S'')) (lit ''YYYY-MM-DD HH:MM:SS'')"
proof -
  from assms obtain y1 y2 y3 y4 where y: "zfill 4 (decimal (year t)) = [y1, y2, y3, y4]"
    "isdigit y1" "isdigit y2" "isdigit y3" "isdigit y4"
    using four_digits [of "year t"] by (auto simp: datetime_ok_def)
  from assms obtain m1 m2 where m: "zfill 2 (decimal (month t)) = [m1, m2]"
    "isdigit m1" "isdigit m2"
    using two_digits [of "month t"] by (auto simp: datetime_ok_def)
  from assms obtain d1 d2 where d: "zfill 2 (decimal (day t)) = [d1, d2]"
    "isdigit d1" "isdigit d2"
    using two_digits [of "day t"] by (auto simp: datetime_ok_def)
  from assms obtain h1 h2 where h: "zfill 2 (decimal (hour t)) = [h1, h2]"
    "isdigit h1" "isdigit h2"
    using two_digits [of "hour t"] by (auto simp: datetime_ok_def)
  from assms obtain n1 n2 where n: "zfill 2 (decimal (minute t)) = [n1, n2]"
    "isdigit n1" "isdigit n2"
    using two_digits [of "minute t"] by (auto simp: datetime_ok_def)
  from assms obtain s1 s2 where s: "zfill 2 (decimal (second t)) = [s1, s2]"
    "isdigit s1" "isdigit s2"
    using two_digits [of "second t"] by (auto simp: datetime_ok_def)
  have "strftime t (lit ''%Y-%m-%d %H:%M:%S'') =
          [y1, y2, y3, y4, 45, m1, m2, 45, d1, d2, 32, h1, h2, 58, n1, n2, 58, s1, s2]"
    by (simp add: lit_def directive_def y m d h n s)
  then show ?thesis using y m d h n s by (simp add: lit_def)
qed

text \<open>
  C7.  At a moment \<open>now\<close> of the clock, the object \<open>save_quiz_to_file\<close> serialises has
  exactly the fields \<open>quiz_title\<close>, the title; \<open>created_date\<close>, a text of the format
  \<open>YYYY-MM-DD HH:MM:SS\<close>; \<open>total_questions\<close>, the length of the list of records; and
  \<open>questions\<close>, that list as it is; and the text returned is \<open>json.dumps\<close> of this
  object with \<open>indent=2\<close>.
\<close>

theorem export_fields:
  assumes "datetime_ok now"
  shows "\<exists>created.
           quiz_data now records title =
             PDict [(lit ''quiz_title'', PStr title),
                    (lit ''created_date'', PStr created),
                    (lit ''total_questions'', PInt (int (length records))),
                    (lit ''questions'', PList records)] \<and>
           has_format created (lit ''YYYY-MM-DD HH:MM:SS'') \<and>
           save_quiz_to_file dumps now records title = dumps (quiz_data now records title) 2"
  using strftime_format [OF assms] by (simp add: quiz_data_def save_quiz_to_file_def)

theorem export_fields_witness:
  \<open>quiz_data \<lparr>year = 2024, month = 3, day = 7, hour = 9, minute = 5, second = 0\<rparr>
      [PDict [(lit ''question'', PStr (lit ''Q1''))]] (lit ''My Quiz'')
    = PDict [(lit ''quiz_title'', PStr (lit ''My Quiz'')),
             (lit ''created_date'', PStr (lit ''2024-03-07 09:05:00'')),
             (lit ''total_questions'', PInt 1),
             (lit ''questions'', PList [PDict [(lit ''question'', PStr (lit ''Q1''))]])] \<and>
   has_format (lit ''2024-03-07 09:05:00'') (lit ''YYYY-MM-DD HH:MM:SS'')\<close>
proof -
  let ?now = "\<lparr>year = 2024, month = 3, day = 7, hour = 9, minute = 5, second = 0\<rparr>"
  have ok: "datetime_ok ?now" by (simp add: datetime_ok_def)
  have c: "strftime ?now (lit ''%Y-%m-%d %H:%M:%S'') = lit ''2024-03-07 09:05:00''"
    by (simp add: lit_def directive_def zfill_def decimal.simps)
  from export_fields [of ?now "[PDict [(lit ''question'', PStr (lit ''Q1''))]]"
      "lit ''My Quiz''" "\<lambda>v n. []", OF ok] c
  show ?thesis by (auto simp: quiz_data_def)
qed

lemma main_keeps_invariant:
  assumes "current_step s \<noteq> Input \<longrightarrow> questions s \<noteq> []"
  shows "current_step (main loads r s) \<noteq> Input \<longrightarrow> questions (main loads r s) \<noteq> []"
  using assms by (cases "current_step s") (auto simp: main_def Let_def)

lemma reachable_invariant:
  "reachable loads s \<Longrightarrow> current_step s \<noteq> Input \<longrightarrow> questions s \<noteq> []"
proof (induction rule: reachable.induct)
  case initial
  then show ?case by (simp add: initialize_session_state_def)
next
  case (after_run s r)
  from after_run.IH show ?case by (rule main_keeps_invariant)
qed

lemma input_to_generated:
  assumes "current_step s = Input" and "current_step (main loads r s) = Generated"
  shows "topic r \<noteq> [] \<and> key_present (sidebar_key r) \<and>
         (\<exists>text. response r = ResponseText text \<and>
            fst (parseAndValidate loads text) \<noteq> [] \<and>
            questions (main loads r s) = fst (parseAndValidate loads text))"
proof -
  from assms have g: "generate_questions r" "\<not> start_new_quiz r"
    and t: "topic r \<noteq> []" and k: "key_present (sidebar_key r)"
    by (auto simp: main_def Let_def split: if_splits)
  with assms have q: "fst (generate_questions_with_gemini loads (sidebar_key r) (response r)) \<noteq> []"
    and m: "questions (main loads r s) =
              fst (generate_questions_with_gemini loads (sidebar_key r) (response r))"
    by (auto simp: main_def Let_def split: if_splits)
  from q k obtain answer where "response r = ResponseText answer"
    by (cases "response r") (auto simp: generate_questions_with_gemini_def)
  with q m k t show ?thesis by (simp add: generate_questions_with_gemini_def)
qed

text \<open>
  C8.  In every state the wizard can reach, a step \<open>generated\<close> comes with a list of
  questions that is not empty; and a run that leads from \<open>input\<close> to \<open>generated\<close> had
  a topic that is not empty, a key, and an answer of the model from which the validation
  returned at least one record, the records the new state holds.
\<close>

theorem generated_needs_questions:
  assumes "reachable loads s"
  shows "(current_step s = Generated \<longrightarrow> questions s \<noteq> []) \<and>
         (\<forall>r. current_step s = Input \<and> current_step (main loads r s) = Generated \<longrightarrow>
            topic r \<noteq> [] \<and> key_present (sidebar_key r) \<and>
            (\<exists>text. response r = ResponseText text \<and>
               fst (parseAndValidate loads text) \<noteq> [] \<and>
               questions (main loads r s) = fst (parseAndValidate loads text)))"
  using reachable_invariant [OF assms] input_to_generated by auto

theorem generated_needs_questions_witness:
  \<open>reachable json_loads
     (main json_loads
        \<lparr>env_key = None, api_key_input = lit ''key'', start_new_quiz = False,
         topic = lit ''History'', generate_questions = True,
         response = ResponseText
           (lit ''[{"question":"Q1","options":["A","B","C"],"correct_answer":1}]''),
         generate_new_quiz = False, edit_questions = False, save_quiz = False,
         create_another_quiz = False, back_to_quiz = False,
         generate_more_questions = False\<rparr>
        initialize_session_state) \<and>
   current_step
     (main json_loads
        \<lparr>env_key = None, api_key_input = lit ''key'', start_new_quiz = False,
         topic = lit ''History'', generate_questions = True,
         response = ResponseText
           (lit ''[{"question":"Q1","options":["A","B","C"],"correct_answer":1}]''),
         generate_new_quiz = False, edit_questions = False, save_quiz = False,
         create_another_quiz = False, back_to_quiz = False,
         generate_more_questions = False\<rparr>
        initialize_session_state) = Generated \<and>
   questions
     (main json_loads
        \<lparr>env_key = None, api_key_input = lit ''key'', start_new_quiz = False,
         topic = lit ''History'', generate_questions = True,
         response = ResponseText
           (lit ''[{"question":"Q1","options":["A","B","C"],"correct_answer":1}]''),
         generate_new_quiz = False, edit_questions = False, save_quiz = False,
         create_another_quiz = False, back_to_quiz = False,
         generate_more_questions = False\<rparr>
        initialize_session_state) \<noteq> []\<close>
proof -
  let ?r = \<open>\<lparr>env_key = None, api_key_input = lit ''key'', start_new_quiz = False,
         topic = lit ''History'', generate_questions = True,
         response = ResponseText
           (lit ''[{"question":"Q1","options":["A","B","C"],"correct_answer":1}]''),
         generate_new_quiz = False, edit_questions = False, save_quiz = False,
         create_another_quiz = False, back_to_quiz = False,
         generate_more_questions = False\<rparr>\<close>
  let ?s = "main json_loads ?r initialize_session_state"
  have r: "reachable json_loads ?s" by (intro reachable.intros)
  have p: \<open>fst (parseAndValidate json_loads
             (lit ''[{"question":"Q1","options":["A","B","C"],"correct_answer":1}]'')) \<noteq> []\<close>
    by (simp add: run_defs)
  have g: "current_step ?s = Generated"
    using p by (simp add: main_def Let_def initialize_session_state_def sidebar_key_def
          key_present_def generate_questions_with_gemini_def lit_def)
  from generated_needs_questions [OF r] g r show ?thesis by simp
qed

end
